theory Spec2Isabelle
  imports Main "HOL-Library.Word" "HOL-Library.AList"
begin

section \<open>View schemas (serge/schema/user.py)\<close>

text \<open>
  \<^verbatim>\<open>uuid.UUID\<close> is a 128-bit identifier. The pydantic classes become records; the
  inheritance from \<^verbatim>\<open>UserBase\<close> becomes record extension, and the field order is the
  order pydantic reports fields in (inherited fields first).
\<close>

type_synonym uuid = "128 word"

record UserBase =
  username :: string

record UserAuth = UserBase +
  secret :: string
  auth_type :: int

record Chat =
  chat_id :: string
  owner :: string

record User = UserBase +
  id :: uuid
  is_active :: bool
  email :: string
  full_name :: string
  theme_light :: bool
  default_prompt :: string
  auth :: "UserAuth list"
  chats :: "Chat list"

definition DEFAULT_PROMPT :: string where
  "DEFAULT_PROMPT =
     ''Below is an instruction that describes a task. Write a response that appropriately completes the request.''"

text \<open>\<^verbatim>\<open>user_schema.User(id=i, username=n)\<close>: every other field takes its declared default.\<close>

definition new_User :: "uuid \<Rightarrow> string \<Rightarrow> User" where
  "new_User i n =
     \<lparr>username = n, id = i, is_active = True, email = [], full_name = [],
      theme_light = False, default_prompt = DEFAULT_PROMPT, auth = [], chats = []\<rparr>"

subsection \<open>Python values: the result of \<^verbatim>\<open>.dict()\<close>\<close>

text \<open>
  A Python dict keeps insertion order and assignment to an existing key keeps the key's
  position, which is what \<^const>\<open>AList.update\<close> does on an association list.
\<close>

datatype pyval =
    PStr string
  | PInt int
  | PBool bool
  | PUuid uuid
  | PList "pyval list"
  | PDict "(string \<times> pyval) list"

type_synonym pydict = "(string \<times> pyval) list"

datatype error =
    AssertionError
  | KeyError
  | TypeError
  | NoResultFound
  | MultipleResultsFound
  | IntegrityError

definition UserAuth_dict :: "UserAuth \<Rightarrow> pydict" where
  "UserAuth_dict ua =
     [(''username'', PStr (username ua)),
      (''secret'', PStr (secret ua)),
      (''auth_type'', PInt (auth_type ua))]"

definition Chat_dict :: "Chat \<Rightarrow> pydict" where
  "Chat_dict c = [(''chat_id'', PStr (chat_id c)), (''owner'', PStr (owner c))]"

definition User_dict :: "User \<Rightarrow> pydict" where
  "User_dict u =
     [(''username'', PStr (username u)),
      (''id'', PUuid (id u)),
      (''is_active'', PBool (is_active u)),
      (''email'', PStr (email u)),
      (''full_name'', PStr (full_name u)),
      (''theme_light'', PBool (theme_light u)),
      (''default_prompt'', PStr (default_prompt u)),
      (''auth'', PList (map (\<lambda>a. PDict (UserAuth_dict a)) (auth u))),
      (''chats'', PList (map (\<lambda>c. PDict (Chat_dict c)) (chats u)))]"

definition getitem :: "pydict \<Rightarrow> string \<Rightarrow> error + pyval" where
  "getitem d k = (case map_of d k of None \<Rightarrow> Inl KeyError | Some v \<Rightarrow> Inr v)"

text \<open>
  The loop of \<^verbatim>\<open>to_public_dict\<close>:
  \<^verbatim>\<open>for auth in user_dict["auth"]: auth["secret"] = "********"\<close>.
  The entries are mutated in place, so the list held by \<^verbatim>\<open>user_dict\<close> afterwards is the
  list of the updated entries. Item assignment on a value that is not a dict is a
  \<^verbatim>\<open>TypeError\<close>.
\<close>

definition MASK :: string where
  "MASK = ''********''"

fun mask_auths :: "pyval list \<Rightarrow> error + pyval list" where
  "mask_auths [] = Inr []"
| "mask_auths (a # rest) =
     (case a of
        PDict kvs \<Rightarrow>
          (case mask_auths rest of
             Inl e \<Rightarrow> Inl e
           | Inr rest' \<Rightarrow> Inr (PDict (AList.update ''secret'' (PStr MASK) kvs) # rest'))
      | _ \<Rightarrow> Inl TypeError)"

definition to_public_dict :: "User \<Rightarrow> error + pydict" where
  "to_public_dict self =
     (let user_dict = User_dict self in
      case getitem user_dict ''auth'' of
        Inl e \<Rightarrow> Inl e
      | Inr (PList auths) \<Rightarrow>
          (case mask_auths auths of
             Inl e \<Rightarrow> Inl e
           | Inr auths' \<Rightarrow> Inr (AList.update ''auth'' (PList auths') user_dict))
      | Inr _ \<Rightarrow> Inl TypeError)"

section \<open>Persisted models and the session\<close>

text \<open>
  Modelled from the spec: the ORM classes \<^verbatim>\<open>serge.models.user.User\<close>, \<^verbatim>\<open>UserAuth\<close> and
  \<^verbatim>\<open>Chat\<close> are not part of the source tree. Their columns are the ones of the persisted
  shape (users: id, username, email, full_name, theme_light, default_prompt, is_active;
  user_auth: user_id, secret, auth_type; chats: chat_id, owner), which are also the
  attributes the source reads and writes. A persisted \<^verbatim>\<open>User\<close> object carries its two
  relationship collections \<^verbatim>\<open>auth\<close> and \<^verbatim>\<open>chats\<close>, as the source uses them
  (\<^verbatim>\<open>u.auth\<close>, \<^verbatim>\<open>user.chats.append\<close>). The fields are prefixed with \<open>db_\<close> because a
  record field name is global. A stored row holds a value of the column's type in every
  column the view schema reads; \<^verbatim>\<open>user_id\<close>, which \<^verbatim>\<open>seed_db\<close> leaves unset and no
  function reads, is optional.
\<close>

record db_UserAuth =
  db_secret :: string
  db_auth_type :: int
  db_user_id :: "uuid option"

record db_Chat =
  db_chat_id :: string
  db_owner :: string

record db_User =
  db_id :: uuid
  db_username :: string
  db_email :: string
  db_full_name :: string
  db_theme_light :: bool
  db_default_prompt :: string
  db_is_active :: bool
  db_auth :: "db_UserAuth list"
  db_chats :: "db_Chat list"

text \<open>
  The session: the rows of the users table in storage order, each with its collections,
  and the rows of the chats table. \<^verbatim>\<open>db.commit()\<close> makes the pending changes permanent.
  Where a call stores keys it generated or checked itself (\<^verbatim>\<open>create_user\<close>,
  \<^verbatim>\<open>create_chat\<close>, \<^verbatim>\<open>remove_chat\<close>, \<^verbatim>\<open>seed_db\<close>) the commit does not change the value of
  the state and has no counterpart below. \<^verbatim>\<open>update_user\<close> writes the caller's id into the
  primary key, and its commit is \<open>commit_User\<close>.
\<close>

record Session =
  user_rows :: "db_User list"
  chat_rows :: "db_Chat list"

text \<open>\<^verbatim>\<open>Query.first()\<close> and \<^verbatim>\<open>Query.one()\<close> on the list of rows a query selects.\<close>

definition first_row :: "'a list \<Rightarrow> 'a option" where
  "first_row rows = (case rows of [] \<Rightarrow> None | r # _ \<Rightarrow> Some r)"

definition one_row :: "'a list \<Rightarrow> error + 'a" where
  "one_row rows =
     (case rows of
        [] \<Rightarrow> Inl NoResultFound
      | [r] \<Rightarrow> Inr r
      | _ \<Rightarrow> Inl MultipleResultsFound)"

text \<open>
  \<^verbatim>\<open>db.add(user)\<close>: the row joins the users table with the auth rows it carries, and the
  chats it carries join the chats table by the save cascade.
\<close>

definition add_User :: "Session \<Rightarrow> db_User \<Rightarrow> Session" where
  "add_User db u =
     db\<lparr>user_rows := user_rows db @ [u], chat_rows := chat_rows db @ db_chats u\<rparr>"

definition add_Chat :: "Session \<Rightarrow> db_Chat \<Rightarrow> Session" where
  "add_Chat db c = db\<lparr>chat_rows := chat_rows db @ [c]\<rparr>"

text \<open>\<^verbatim>\<open>db.delete(c)\<close>: the row leaves the chats table and every collection that holds it.\<close>

definition delete_Chat :: "Session \<Rightarrow> db_Chat \<Rightarrow> Session" where
  "delete_Chat db c =
     db\<lparr>user_rows := map (\<lambda>u. u\<lparr>db_chats := remove1 c (db_chats u)\<rparr>) (user_rows db),
        chat_rows := remove1 c (chat_rows db)\<rparr>"

section \<open>Mappers (serge/crud.py)\<close>

text \<open>
  \<^verbatim>\<open>user_db_to_view\<close>. The dict comprehension over \<^verbatim>\<open>u.__dict__\<close> keeps the column
  attributes (no leading underscore, neither \<^verbatim>\<open>chats\<close> nor \<^verbatim>\<open>auth\<close>) and hands them to the
  view constructor by name.
\<close>

definition user_db_to_view :: "db_User option \<Rightarrow> bool \<Rightarrow> User option" where
  "user_db_to_view uo include_auth =
     (case uo of
        None \<Rightarrow> None
      | Some u \<Rightarrow>
          (let auths = (if include_auth then db_auth u else []);
               chats' = db_chats u
           in Some
               \<lparr>username = db_username u,
                id = db_id u,
                is_active = db_is_active u,
                email = db_email u,
                full_name = db_full_name u,
                theme_light = db_theme_light u,
                default_prompt = db_default_prompt u,
                auth = map (\<lambda>x. \<lparr>username = db_username u, secret = db_secret x,
                                  auth_type = db_auth_type x\<rparr>) auths,
                chats = map (\<lambda>x. \<lparr>chat_id = db_chat_id x, owner = db_owner x\<rparr>) chats'\<rparr>))"

definition user_auth_view_to_db :: "UserAuth option \<Rightarrow> uuid \<Rightarrow> db_UserAuth option" where
  "user_auth_view_to_db uao user_id =
     (case uao of
        None \<Rightarrow> None
      | Some ua \<Rightarrow>
          Some \<lparr>db_secret = secret ua, db_auth_type = auth_type ua, db_user_id = Some user_id\<rparr>)"

text \<open>
  Modelled from the spec: the constructor of the absent class \<^verbatim>\<open>user_model.User\<close>, called
  with the entries of \<^verbatim>\<open>u.dict()\<close> as keyword arguments, builds the persisted row from the
  view's scalar fields; its collections are filled by the statements that follow the call.
  What the class does with the \<^verbatim>\<open>auth\<close> and \<^verbatim>\<open>chats\<close> entries of the dict is not in the
  source tree.
\<close>

definition User_row :: "User \<Rightarrow> db_User" where
  "User_row u =
     \<lparr>db_id = id u,
      db_username = username u,
      db_email = email u,
      db_full_name = full_name u,
      db_theme_light = theme_light u,
      db_default_prompt = default_prompt u,
      db_is_active = is_active u,
      db_auth = [],
      db_chats = []\<rparr>"

text \<open>
  \<^verbatim>\<open>user_view_to_db\<close>, lines 207 to 215, once \<^verbatim>\<open>u\<close> is resolved. The constructor call
  \<^verbatim>\<open>user_model.Chat(chat_id=chat.chat_id)\<close> hands the absent class a chat_id and nothing
  else; what that class leaves in the other column is not in the source tree, so the call
  is the parameter \<open>Chat_of_id\<close>. Where no \<^verbatim>\<open>ua\<close> is given the source returns the
  empty list it initialised \<^verbatim>\<open>auth\<close> with; \<open>None\<close> stands for it.
\<close>

definition user_view_to_db_rows ::
    "(string \<Rightarrow> db_Chat) \<Rightarrow> User \<Rightarrow> UserAuth option \<Rightarrow> db_User \<times> db_UserAuth option" where
  "user_view_to_db_rows Chat_of_id u uao =
     (let auth' = (case uao of None \<Rightarrow> None | Some ua \<Rightarrow> user_auth_view_to_db (Some ua) (id u));
          user = User_row u;
          user = (case auth' of
                    None \<Rightarrow> user
                  | Some a \<Rightarrow> user\<lparr>db_auth := db_auth user @ [a]\<rparr>);
          user = foldl (\<lambda>usr chat. usr\<lparr>db_chats := db_chats usr @ [Chat_of_id (chat_id chat)]\<rparr>)
                   user (chats u)
      in (user, auth'))"

text \<open>
  \<^verbatim>\<open>user_view_to_db\<close>: the assertion, then the new-signup branch, where \<open>fresh\<close> is the
  value \<^verbatim>\<open>uuid.uuid4()\<close> returns.
\<close>

fun user_view_to_db ::
    "(string \<Rightarrow> db_Chat) \<Rightarrow> uuid \<Rightarrow> User option \<Rightarrow> UserAuth option
       \<Rightarrow> error + (db_User \<times> db_UserAuth option)" where
  "user_view_to_db Chat_of_id fresh None None = Inl AssertionError"
| "user_view_to_db Chat_of_id fresh None (Some ua) =
     Inr (user_view_to_db_rows Chat_of_id (new_User fresh (username ua)) (Some ua))"
| "user_view_to_db Chat_of_id fresh (Some u) uao =
     Inr (user_view_to_db_rows Chat_of_id u uao)"

section \<open>Service functions (serge/crud.py, serge/database.py)\<close>

definition get_user :: "Session \<Rightarrow> string \<Rightarrow> User option" where
  "get_user db name =
     user_db_to_view (first_row (filter (\<lambda>r. db_username r = name) (user_rows db))) True"

definition get_user_by_email :: "Session \<Rightarrow> string \<Rightarrow> User option" where
  "get_user_by_email db mail =
     user_db_to_view (first_row (filter (\<lambda>r. db_email r = mail) (user_rows db))) False"

text \<open>\<^verbatim>\<open>offset(skip).limit(limit)\<close> with the non-negative page bounds the route passes.\<close>

definition get_users :: "Session \<Rightarrow> nat \<Rightarrow> nat \<Rightarrow> User option list" where
  "get_users db skip limit =
     map (\<lambda>u. user_db_to_view (Some u) False) (take limit (drop skip (user_rows db)))"

text \<open>
  \<^verbatim>\<open>create_user\<close>. \<open>get_password_hash\<close> is the hashing function of the security utility
  and \<open>fresh\<close> the identifier \<^verbatim>\<open>uuid.uuid4()\<close> generates. A pydantic object is truthy,
  so the existence check succeeds exactly when \<^verbatim>\<open>get_user\<close> returns a view.
  \<^verbatim>\<open>db.add(db_user_auth)\<close> registers the row that line 212 appended to
  \<^verbatim>\<open>db_user.auth\<close>; it is stored with its user by \<^const>\<open>add_User\<close>. The assignment
  \<^verbatim>\<open>ua.secret = get_password_hash(ua.secret)\<close> is the updated \<open>ua'\<close>. The result pairs
  what the call returns or raises with the session it leaves.
\<close>

definition create_user ::
    "(string \<Rightarrow> string) \<Rightarrow> (string \<Rightarrow> db_Chat) \<Rightarrow> uuid \<Rightarrow> Session \<Rightarrow> UserAuth
       \<Rightarrow> (error + User option) \<times> Session" where
  "create_user get_password_hash Chat_of_id fresh db ua =
     (if get_user db (username ua) \<noteq> None then (Inr None, db)
      else if auth_type ua = 1 then
        (let ua' = ua\<lparr>secret := get_password_hash (secret ua)\<rparr> in
         case user_view_to_db Chat_of_id fresh None (Some ua') of
           Inl e \<Rightarrow> (Inl e, db)
         | Inr (db_user, db_user_auth) \<Rightarrow>
             (let db' = add_User db db_user
              in (Inr (user_db_to_view (Some db_user) False), db')))
      else (Inr None, db))"

text \<open>
  \<^verbatim>\<open>update_user\<close>. The loop \<^verbatim>\<open>for k, v in u.dict().items()\<close> runs over the entries of
  \<^const>\<open>User_dict\<close>; \<^verbatim>\<open>setattr\<close> on a name that is a column stores the value in the
  column, and the row mutated is the first row the query selects.
\<close>

definition setattr_User :: "db_User \<Rightarrow> string \<Rightarrow> pyval \<Rightarrow> db_User" where
  "setattr_User user k v =
     (case v of
        PStr s \<Rightarrow>
          (if k = ''username'' then user\<lparr>db_username := s\<rparr>
           else if k = ''email'' then user\<lparr>db_email := s\<rparr>
           else if k = ''full_name'' then user\<lparr>db_full_name := s\<rparr>
           else if k = ''default_prompt'' then user\<lparr>db_default_prompt := s\<rparr>
           else user)
      | PBool b \<Rightarrow>
          (if k = ''is_active'' then user\<lparr>db_is_active := b\<rparr>
           else if k = ''theme_light'' then user\<lparr>db_theme_light := b\<rparr>
           else user)
      | PUuid i \<Rightarrow> (if k = ''id'' then user\<lparr>db_id := i\<rparr> else user)
      | _ \<Rightarrow> user)"

fun update_user_loop :: "db_User \<Rightarrow> pydict \<Rightarrow> db_User" where
  "update_user_loop user [] = user"
| "update_user_loop user ((k, v) # items) =
     (if k \<in> set [''auth'', ''chats''] then update_user_loop user items
      else update_user_loop (setattr_User user k v) items)"

fun replace_first :: "('a \<Rightarrow> bool) \<Rightarrow> 'a \<Rightarrow> 'a list \<Rightarrow> 'a list" where
  "replace_first P y [] = []"
| "replace_first P y (x # xs) = (if P x then y # xs else x # replace_first P y xs)"

text \<open>
  Modelled from the spec: \<^verbatim>\<open>db.commit()\<close> at the end of \<^verbatim>\<open>update_user\<close>, against the
  persisted shape, where \<^verbatim>\<open>id\<close> is the primary key of users and \<^verbatim>\<open>user_id\<close> of the
  dependent rows refers to it. \<open>old\<close> is the row as stored and \<open>new\<close> the row after the
  \<^verbatim>\<open>setattr\<close> loop. An unchanged id is stored as it is. An id that another stored row
  carries violates the primary key, and the commit raises \<^verbatim>\<open>IntegrityError\<close>. What the
  storage does with the rows that refer to the old id when the id changes to an unused
  one (refuse the change, leave them behind, let them follow) is decided by the table
  declarations, which are not in the source tree: it is the parameter \<open>rebind\<close>, which
  gives the collections the row has afterwards, or the error raised.
\<close>

definition commit_User ::
    "(db_User \<Rightarrow> uuid \<Rightarrow> error + db_UserAuth list \<times> db_Chat list)
       \<Rightarrow> Session \<Rightarrow> db_User \<Rightarrow> db_User \<Rightarrow> error + db_User" where
  "commit_User rebind db old new =
     (if db_id new = db_id old then Inr new
      else if db_id new \<in> set (map db_id (user_rows db)) then Inl IntegrityError
      else (case rebind old (db_id new) of
              Inl e \<Rightarrow> Inl e
            | Inr (auth', chats') \<Rightarrow> Inr (new\<lparr>db_auth := auth', db_chats := chats'\<rparr>)))"

text \<open>
  A commit that raises leaves the stored rows as they were. The row returned is the
  mutated object, which after the commit is the row as stored.
\<close>

definition update_user ::
    "(db_User \<Rightarrow> uuid \<Rightarrow> error + db_UserAuth list \<times> db_Chat list)
       \<Rightarrow> Session \<Rightarrow> User \<Rightarrow> (error + db_User option) \<times> Session" where
  "update_user rebind db u =
     (case first_row (filter (\<lambda>r. db_username r = username u) (user_rows db)) of
        None \<Rightarrow> (Inr None, db)
      | Some user \<Rightarrow>
          (let user' = update_user_loop user (User_dict u)
           in case commit_User rebind db user user' of
                Inl e \<Rightarrow> (Inl e, db)
              | Inr stored \<Rightarrow>
                  (Inr (Some stored),
                   db\<lparr>user_rows :=
                        replace_first (\<lambda>r. db_username r = username u) stored (user_rows db)\<rparr>)))"

definition create_chat :: "Session \<Rightarrow> Chat \<Rightarrow> Session" where
  "create_chat db chat =
     (let c = \<lparr>db_chat_id = chat_id chat, db_owner = owner chat\<rparr> in add_Chat db c)"

text \<open>\<^verbatim>\<open>remove_chat\<close>: an exception of \<^verbatim>\<open>one()\<close> leaves the function before the delete.\<close>

definition remove_chat :: "Session \<Rightarrow> Chat \<Rightarrow> (error + unit) \<times> Session" where
  "remove_chat db chat =
     (case one_row (filter (\<lambda>r. db_chat_id r = chat_id chat) (chat_rows db)) of
        Inl e \<Rightarrow> (Inl e, db)
      | Inr c \<Rightarrow> (Inr (), delete_Chat db c))"

text \<open>\<^verbatim>\<open>seed_db\<close>, with \<open>fresh\<close> the identifier \<^verbatim>\<open>uuid.uuid4()\<close> generates.\<close>

definition seed_db :: "uuid \<Rightarrow> Session \<Rightarrow> Session" where
  "seed_db fresh db =
     (case first_row (filter (\<lambda>r. db_username r = ''system'') (user_rows db)) of
        Some sys_u \<Rightarrow> db
      | None \<Rightarrow>
          add_User db
            \<lparr>db_id = fresh,
             db_username = ''system'',
             db_email = [],
             db_full_name = ''Default User'',
             db_theme_light = False,
             db_default_prompt = DEFAULT_PROMPT,
             db_is_active = True,
             db_auth = [\<lparr>db_secret = [], db_auth_type = 0, db_user_id = None\<rparr>],
             db_chats = []\<rparr>)"

section \<open>Sequences of service calls\<close>

text \<open>
  The service is called one request after another. An operation names one call with its
  arguments (the identifier a call draws from \<^verbatim>\<open>uuid.uuid4()\<close> is listed with them);
  \<open>step\<close> is the session the call leaves, whatever it returns or raises, and \<open>run\<close>
  performs a list of calls in order. The lookups and the listing only read the session.
  \<open>rebind\<close> is the parameter of \<open>commit_User\<close>.
\<close>

datatype operation =
    Get_user string
  | Get_user_by_email string
  | Get_users nat nat
  | Create_user uuid UserAuth
  | Update_user User
  | Create_chat Chat
  | Remove_chat Chat
  | Seed_db uuid

fun step ::
    "(string \<Rightarrow> string) \<Rightarrow> (string \<Rightarrow> db_Chat)
       \<Rightarrow> (db_User \<Rightarrow> uuid \<Rightarrow> error + db_UserAuth list \<times> db_Chat list)
       \<Rightarrow> Session \<Rightarrow> operation \<Rightarrow> Session" where
  "step h mk rebind db (Get_user name) = db"
| "step h mk rebind db (Get_user_by_email mail) = db"
| "step h mk rebind db (Get_users skip limit) = db"
| "step h mk rebind db (Create_user fresh ua) = snd (create_user h mk fresh db ua)"
| "step h mk rebind db (Update_user u) = snd (update_user rebind db u)"
| "step h mk rebind db (Create_chat chat) = create_chat db chat"
| "step h mk rebind db (Remove_chat chat) = snd (remove_chat db chat)"
| "step h mk rebind db (Seed_db fresh) = seed_db fresh db"

fun run ::
    "(string \<Rightarrow> string) \<Rightarrow> (string \<Rightarrow> db_Chat)
       \<Rightarrow> (db_User \<Rightarrow> uuid \<Rightarrow> error + db_UserAuth list \<times> db_Chat list)
       \<Rightarrow> Session \<Rightarrow> operation list \<Rightarrow> Session" where
  "run h mk rebind db [] = db"
| "run h mk rebind db (op # ops) = run h mk rebind (step h mk rebind db op) ops"

definition usernames_unique :: "Session \<Rightarrow> bool" where
  "usernames_unique db = distinct (map db_username (user_rows db))"

section \<open>Queries\<close>

lemma first_row_filter_None:
  "first_row (filter P xs) = None \<longleftrightarrow> (\<forall>x\<in>set xs. \<not> P x)"
  by (induction xs) (auto simp: first_row_def)

lemma first_row_filter_find: "first_row (filter P xs) = find P xs"
  by (induction xs) (auto simp: first_row_def)

lemma user_db_to_view_None: "user_db_to_view uo inc = None \<longleftrightarrow> uo = None"
  by (cases uo) (simp_all add: user_db_to_view_def Let_def)

lemma get_user_None_iff:
  "get_user db name = None \<longleftrightarrow> (\<forall>r\<in>set (user_rows db). db_username r \<noteq> name)"
  by (simp add: get_user_def user_db_to_view_None first_row_filter_None)

section \<open>User creation\<close>

text \<open>
  C1. In both failure cases, a row with the input's username already stored or an
  auth_type other than 1, \<^verbatim>\<open>create_user\<close> returns \<^verbatim>\<open>None\<close> and leaves the session as it
  was: no row is added and no row is altered.
\<close>

theorem create_user_failure:
  assumes "(\<exists>r\<in>set (user_rows db). db_username r = username ua) \<or> auth_type ua \<noteq> 1"
  shows "create_user h mk fresh db ua = (Inr None, db)"
proof (cases "get_user db (username ua) = None")
  case False
  then show ?thesis by (simp add: create_user_def)
next
  case True
  with assms have "auth_type ua \<noteq> 1" by (auto simp: get_user_None_iff)
  with True show ?thesis by (simp add: create_user_def)
qed

theorem create_user_failure_witness:
  "create_user (\<lambda>s. CHR ''#'' # s) (\<lambda>c. \<lparr>db_chat_id = c, db_owner = []\<rparr>) 9
      \<lparr>user_rows =
         [\<lparr>db_id = 7, db_username = ''alice'', db_email = ''a@example.org'',
           db_full_name = ''Alice'', db_theme_light = True, db_default_prompt = ''hi'',
           db_is_active = True,
           db_auth = [\<lparr>db_secret = ''h1'', db_auth_type = 1, db_user_id = Some 7\<rparr>],
           db_chats = []\<rparr>],
       chat_rows = []\<rparr>
      \<lparr>username = ''alice'', secret = ''pw'', auth_type = 1\<rparr>
   = (Inr None,
      \<lparr>user_rows =
         [\<lparr>db_id = 7, db_username = ''alice'', db_email = ''a@example.org'',
           db_full_name = ''Alice'', db_theme_light = True, db_default_prompt = ''hi'',
           db_is_active = True,
           db_auth = [\<lparr>db_secret = ''h1'', db_auth_type = 1, db_user_id = Some 7\<rparr>],
           db_chats = []\<rparr>],
       chat_rows = []\<rparr>)
   \<and> create_user (\<lambda>s. CHR ''#'' # s) (\<lambda>c. \<lparr>db_chat_id = c, db_owner = []\<rparr>) 9
      \<lparr>user_rows = [], chat_rows = []\<rparr> \<lparr>username = ''bob'', secret = ''pw'', auth_type = 2\<rparr>
   = (Inr None, \<lparr>user_rows = [], chat_rows = []\<rparr>)"
proof
  show "create_user (\<lambda>s. CHR ''#'' # s) (\<lambda>c. \<lparr>db_chat_id = c, db_owner = []\<rparr>) 9
      \<lparr>user_rows =
         [\<lparr>db_id = 7, db_username = ''alice'', db_email = ''a@example.org'',
           db_full_name = ''Alice'', db_theme_light = True, db_default_prompt = ''hi'',
           db_is_active = True,
           db_auth = [\<lparr>db_secret = ''h1'', db_auth_type = 1, db_user_id = Some 7\<rparr>],
           db_chats = []\<rparr>],
       chat_rows = []\<rparr>
      \<lparr>username = ''alice'', secret = ''pw'', auth_type = 1\<rparr>
   = (Inr None,
      \<lparr>user_rows =
         [\<lparr>db_id = 7, db_username = ''alice'', db_email = ''a@example.org'',
           db_full_name = ''Alice'', db_theme_light = True, db_default_prompt = ''hi'',
           db_is_active = True,
           db_auth = [\<lparr>db_secret = ''h1'', db_auth_type = 1, db_user_id = Some 7\<rparr>],
           db_chats = []\<rparr>],
       chat_rows = []\<rparr>)"
    by (rule create_user_failure) simp
  show "create_user (\<lambda>s. CHR ''#'' # s) (\<lambda>c. \<lparr>db_chat_id = c, db_owner = []\<rparr>) 9
      \<lparr>user_rows = [], chat_rows = []\<rparr> \<lparr>username = ''bob'', secret = ''pw'', auth_type = 2\<rparr>
   = (Inr None, \<lparr>user_rows = [], chat_rows = []\<rparr>)"
    by (rule create_user_failure) simp
qed

text \<open>
  C2. With a username no stored row carries and auth_type 1, \<^verbatim>\<open>create_user\<close> succeeds:
  it returns the view of the new user and appends one user row whose single auth row
  stores the hash of the input's plaintext secret, bound to the new identifier. Where the
  hash of the plaintext differs from the plaintext, the stored secret differs from it.
\<close>

theorem create_user_stores_hash:
  assumes fresh_name: "\<forall>r\<in>set (user_rows db). db_username r \<noteq> username ua"
    and pw: "auth_type ua = 1"
  shows "create_user h mk fresh db ua =
           (Inr (Some (new_User fresh (username ua))),
            db\<lparr>user_rows := user_rows db @
               [\<lparr>db_id = fresh, db_username = username ua, db_email = [], db_full_name = [],
                 db_theme_light = False, db_default_prompt = DEFAULT_PROMPT, db_is_active = True,
                 db_auth = [\<lparr>db_secret = h (secret ua), db_auth_type = 1,
                             db_user_id = Some fresh\<rparr>],
                 db_chats = []\<rparr>]\<rparr>)
         \<and> (h (secret ua) \<noteq> secret ua \<longrightarrow>
              (\<forall>a\<in>set (db_auth (last (user_rows (snd (create_user h mk fresh db ua))))).
                 db_secret a \<noteq> secret ua))"
proof -
  from fresh_name have "get_user db (username ua) = None" by (simp add: get_user_None_iff)
  then show ?thesis using pw
    by (simp add: create_user_def Let_def user_view_to_db_rows_def user_auth_view_to_db_def
        new_User_def User_row_def add_User_def user_db_to_view_def)
qed

theorem create_user_stores_hash_witness:
  "create_user (\<lambda>s. CHR ''#'' # s) (\<lambda>c. \<lparr>db_chat_id = c, db_owner = []\<rparr>) 9
      \<lparr>user_rows = [], chat_rows = []\<rparr> \<lparr>username = ''bob'', secret = ''pw'', auth_type = 1\<rparr>
     = (Inr (Some (new_User 9 ''bob'')),
        \<lparr>user_rows =
               [\<lparr>db_id = 9, db_username = ''bob'', db_email = [], db_full_name = [],
                 db_theme_light = False, db_default_prompt = DEFAULT_PROMPT, db_is_active = True,
                 db_auth = [\<lparr>db_secret = ''#pw'', db_auth_type = 1, db_user_id = Some 9\<rparr>],
                 db_chats = []\<rparr>], chat_rows = []\<rparr>)"
  using create_user_stores_hash [of "\<lparr>user_rows = [], chat_rows = []\<rparr>"
      "\<lparr>username = ''bob'', secret = ''pw'', auth_type = 1\<rparr>" "\<lambda>s. CHR ''#'' # s"
      "\<lambda>c. \<lparr>db_chat_id = c, db_owner = []\<rparr>" 9]
  by simp

section \<open>User lookup\<close>

lemma find_Some_props: "find P xs = Some r \<Longrightarrow> r \<in> set xs \<and> P r"
  by (induction xs) (auto split: if_splits)

text \<open>
  C3. \<^verbatim>\<open>get_user\<close> returns nothing exactly when no stored row carries the username;
  a view it returns belongs to the first row with that username and its auth collection is
  the stored auth records of that row, each mapped with the username, hence non-empty
  whenever the row has auth records. \<^verbatim>\<open>get_user_by_email\<close> returns nothing exactly when
  no stored row carries the email; a view it returns belongs to the first row with that
  email and its auth collection is empty.
\<close>

theorem get_user_lookup:
  "(get_user db name = None \<longleftrightarrow> (\<forall>r\<in>set (user_rows db). db_username r \<noteq> name))
   \<and> (\<forall>v. get_user db name = Some v \<longrightarrow>
         (\<exists>r\<in>set (user_rows db).
            find (\<lambda>r. db_username r = name) (user_rows db) = Some r
            \<and> username v = name
            \<and> auth v = map (\<lambda>x. \<lparr>username = name, secret = db_secret x,
                                   auth_type = db_auth_type x\<rparr>) (db_auth r)
            \<and> (db_auth r \<noteq> [] \<longrightarrow> auth v \<noteq> [])))
   \<and> (get_user_by_email db mail = None \<longleftrightarrow> (\<forall>r\<in>set (user_rows db). db_email r \<noteq> mail))
   \<and> (\<forall>v. get_user_by_email db mail = Some v \<longrightarrow>
         (\<exists>r\<in>set (user_rows db).
            find (\<lambda>r. db_email r = mail) (user_rows db) = Some r
            \<and> email v = mail \<and> username v = db_username r \<and> auth v = []))"
proof (intro conjI allI impI)
  show "get_user db name = None \<longleftrightarrow> (\<forall>r\<in>set (user_rows db). db_username r \<noteq> name)"
    by (rule get_user_None_iff)
next
  show "get_user_by_email db mail = None \<longleftrightarrow> (\<forall>r\<in>set (user_rows db). db_email r \<noteq> mail)"
    by (simp add: get_user_by_email_def user_db_to_view_None first_row_filter_None)
next
  fix v assume v: "get_user db name = Some v"
  then obtain r where r: "find (\<lambda>r. db_username r = name) (user_rows db) = Some r"
    by (cases "find (\<lambda>r. db_username r = name) (user_rows db)")
       (auto simp: get_user_def first_row_filter_find user_db_to_view_def)
  from find_Some_props [OF r] have mem: "r \<in> set (user_rows db)" and nm: "db_username r = name"
    by simp_all
  from v r nm have "username v = name"
    and "auth v = map (\<lambda>x. \<lparr>username = name, secret = db_secret x,
                                   auth_type = db_auth_type x\<rparr>) (db_auth r)"
    by (auto simp: get_user_def first_row_filter_find user_db_to_view_def Let_def)
  with mem r show "\<exists>r\<in>set (user_rows db).
            find (\<lambda>r. db_username r = name) (user_rows db) = Some r
            \<and> username v = name
            \<and> auth v = map (\<lambda>x. \<lparr>username = name, secret = db_secret x,
                                   auth_type = db_auth_type x\<rparr>) (db_auth r)
            \<and> (db_auth r \<noteq> [] \<longrightarrow> auth v \<noteq> [])"
    by auto
next
  fix v assume v: "get_user_by_email db mail = Some v"
  then obtain r where r: "find (\<lambda>r. db_email r = mail) (user_rows db) = Some r"
    by (cases "find (\<lambda>r. db_email r = mail) (user_rows db)")
       (auto simp: get_user_by_email_def first_row_filter_find user_db_to_view_def)
  from find_Some_props [OF r] have mem: "r \<in> set (user_rows db)" and nm: "db_email r = mail"
    by simp_all
  from v r nm have "email v = mail" and "username v = db_username r" and "auth v = []"
    by (auto simp: get_user_by_email_def first_row_filter_find user_db_to_view_def Let_def)
  with mem r show "\<exists>r\<in>set (user_rows db).
            find (\<lambda>r. db_email r = mail) (user_rows db) = Some r
            \<and> email v = mail \<and> username v = db_username r \<and> auth v = []"
    by auto
qed

theorem get_user_lookup_witness:
  "(\<exists>v. get_user
          \<lparr>user_rows =
        [\<lparr>db_id = 7, db_username = ''alice'', db_email = ''a@example.org'',
          db_full_name = ''Alice'', db_theme_light = True, db_default_prompt = ''hi'',
          db_is_active = True,
          db_auth = [\<lparr>db_secret = ''h1'', db_auth_type = 1, db_user_id = Some 7\<rparr>],
          db_chats = []\<rparr>],
      chat_rows = []\<rparr> ''alice'' = Some v
        \<and> auth v = [\<lparr>username = ''alice'', secret = ''h1'', auth_type = 1\<rparr>])
   \<and> get_user
          \<lparr>user_rows =
        [\<lparr>db_id = 7, db_username = ''alice'', db_email = ''a@example.org'',
          db_full_name = ''Alice'', db_theme_light = True, db_default_prompt = ''hi'',
          db_is_active = True,
          db_auth = [\<lparr>db_secret = ''h1'', db_auth_type = 1, db_user_id = Some 7\<rparr>],
          db_chats = []\<rparr>],
      chat_rows = []\<rparr> ''Alice'' = None
   \<and> (\<exists>v. get_user_by_email
          \<lparr>user_rows =
        [\<lparr>db_id = 7, db_username = ''alice'', db_email = ''a@example.org'',
          db_full_name = ''Alice'', db_theme_light = True, db_default_prompt = ''hi'',
          db_is_active = True,
          db_auth = [\<lparr>db_secret = ''h1'', db_auth_type = 1, db_user_id = Some 7\<rparr>],
          db_chats = []\<rparr>],
      chat_rows = []\<rparr> ''a@example.org'' = Some v \<and> auth v = [])"
  using get_user_lookup [of
          "\<lparr>user_rows =
        [\<lparr>db_id = 7, db_username = ''alice'', db_email = ''a@example.org'',
          db_full_name = ''Alice'', db_theme_light = True, db_default_prompt = ''hi'',
          db_is_active = True,
          db_auth = [\<lparr>db_secret = ''h1'', db_auth_type = 1, db_user_id = Some 7\<rparr>],
          db_chats = []\<rparr>],
      chat_rows = []\<rparr>" "''alice''" "''a@example.org''"]
    get_user_lookup [of
          "\<lparr>user_rows =
        [\<lparr>db_id = 7, db_username = ''alice'', db_email = ''a@example.org'',
          db_full_name = ''Alice'', db_theme_light = True, db_default_prompt = ''hi'',
          db_is_active = True,
          db_auth = [\<lparr>db_secret = ''h1'', db_auth_type = 1, db_user_id = Some 7\<rparr>],
          db_chats = []\<rparr>],
      chat_rows = []\<rparr>" "''Alice''" "''a@example.org''"]
  by auto

section \<open>Public serialization\<close>

lemma mask_auths_dicts:
  "mask_auths (map (\<lambda>a. PDict (UserAuth_dict a)) as) =
     Inr (map (\<lambda>a. PDict [(''username'', PStr (username a)), (''secret'', PStr MASK),
                          (''auth_type'', PInt (auth_type a))]) as)"
  by (induction as) (simp_all add: UserAuth_dict_def)

text \<open>
  C4. For every view, whatever its auth records hold, \<^verbatim>\<open>to_public_dict\<close> returns a
  dictionary whose \<^verbatim>\<open>auth\<close> entry is a list with one dict for each auth record, and the
  \<^verbatim>\<open>secret\<close> of every one of them is the string of eight asterisks.
\<close>

theorem to_public_dict_masks:
  "\<exists>d ds. to_public_dict u = Inr d
      \<and> map_of d ''auth'' = Some (PList ds)
      \<and> length ds = length (auth u)
      \<and> (\<forall>x\<in>set ds. \<exists>kvs. x = PDict kvs \<and> map_of kvs ''secret'' = Some (PStr ''********''))"
proof -
  let ?ds = "map (\<lambda>a. PDict [(''username'', PStr (username a)), (''secret'', PStr MASK),
                          (''auth_type'', PInt (auth_type a))]) (auth u)"
  have "to_public_dict u = Inr (AList.update ''auth'' (PList ?ds) (User_dict u))"
    by (simp add: to_public_dict_def getitem_def User_dict_def mask_auths_dicts)
  moreover have "map_of (AList.update ''auth'' (PList ?ds) (User_dict u)) ''auth'' = Some (PList ?ds)"
    by (simp add: update_conv')
  moreover have "length ?ds = length (auth u)" by simp
  moreover have "\<forall>x\<in>set ?ds. \<exists>kvs. x = PDict kvs \<and> map_of kvs ''secret'' = Some (PStr ''********'')"
    by (auto simp: MASK_def)
  ultimately show ?thesis by blast
qed

theorem to_public_dict_masks_witness:
  "\<exists>d. to_public_dict \<lparr>username = ''alice'', id = 7, is_active = True, email = ''a@example.org'',
          full_name = ''Alice'', theme_light = True, default_prompt = ''hi'',
          auth = [\<lparr>username = ''alice'', secret = ''h1'', auth_type = 1\<rparr>], chats = []\<rparr> = Inr d
      \<and> map_of d ''auth'' = Some (PList [PDict [(''username'', PStr ''alice''),
            (''secret'', PStr ''********''), (''auth_type'', PInt 1)]])"
  using to_public_dict_masks [of "\<lparr>username = ''alice'', id = 7, is_active = True,
          email = ''a@example.org'',
          full_name = ''Alice'', theme_light = True, default_prompt = ''hi'',
          auth = [\<lparr>username = ''alice'', secret = ''h1'', auth_type = 1\<rparr>], chats = []\<rparr>"]
  by (simp add: to_public_dict_def getitem_def User_dict_def UserAuth_dict_def MASK_def)

section \<open>User update\<close>

lemma update_user_loop_User_dict:
  "update_user_loop r (User_dict u) =
     \<lparr>db_id = id u, db_username = username u, db_email = email u,
      db_full_name = full_name u, db_theme_light = theme_light u,
      db_default_prompt = default_prompt u, db_is_active = is_active u,
      db_auth = db_auth r, db_chats = db_chats r\<rparr>"
  by (simp add: User_dict_def setattr_User_def)


lemma update_user_loop_scalars:
  "db_id (update_user_loop r (User_dict u)) = id u"
  "db_username (update_user_loop r (User_dict u)) = username u"
  "db_email (update_user_loop r (User_dict u)) = email u"
  "db_full_name (update_user_loop r (User_dict u)) = full_name u"
  "db_theme_light (update_user_loop r (User_dict u)) = theme_light u"
  "db_default_prompt (update_user_loop r (User_dict u)) = default_prompt u"
  "db_is_active (update_user_loop r (User_dict u)) = is_active u"
  by (simp_all add: update_user_loop_User_dict)

lemma commit_User_scalars:
  assumes "commit_User rebind db old new = Inr stored"
  shows "db_id stored = db_id new \<and> db_username stored = db_username new
    \<and> db_email stored = db_email new \<and> db_full_name stored = db_full_name new
    \<and> db_theme_light stored = db_theme_light new
    \<and> db_default_prompt stored = db_default_prompt new
    \<and> db_is_active stored = db_is_active new"
  using assms
  by (auto simp: commit_User_def split: if_splits sum.splits prod.splits)




section \<open>Chat removal\<close>

lemma filter_single_remove1:
  "filter P xs = [c] \<Longrightarrow> remove1 c xs = filter (\<lambda>x. \<not> P x) xs"
proof (induction xs)
  case Nil
  then show ?case by simp
next
  case (Cons x xs)
  show ?case
  proof (cases "P x")
    case True
    with Cons.prems have "x = c" and "filter P xs = []" by simp_all
    then have "filter (\<lambda>x. \<not> P x) xs = xs" by (simp add: filter_empty_conv)
    with True \<open>x = c\<close> show ?thesis by simp
  next
    case False
    with Cons.prems have single: "filter P xs = [c]" by simp
    then have "c \<in> set (filter P xs)" by simp
    then have "P c" by simp
    with False have "x \<noteq> c" by blast
    with Cons.IH [OF single] False show ?thesis by simp
  qed
qed

text \<open>
  C6. \<^verbatim>\<open>remove_chat\<close> looks the chat up by chat_id with \<^verbatim>\<open>one()\<close>. With no matching row
  it raises \<^verbatim>\<open>NoResultFound\<close>, with more than one it raises \<^verbatim>\<open>MultipleResultsFound\<close>, and
  in both cases the session is as it was, so no row is deleted. With exactly one matching
  row it deletes that row: the chats table afterwards holds the rows with another chat_id,
  one row fewer than before.
\<close>

theorem remove_chat_exactly_one:
  "(filter (\<lambda>r. db_chat_id r = chat_id chat) (chat_rows db) = [] \<longrightarrow>
      remove_chat db chat = (Inl NoResultFound, db))
   \<and> (1 < length (filter (\<lambda>r. db_chat_id r = chat_id chat) (chat_rows db)) \<longrightarrow>
      remove_chat db chat = (Inl MultipleResultsFound, db))
   \<and> (\<forall>c. filter (\<lambda>r. db_chat_id r = chat_id chat) (chat_rows db) = [c] \<longrightarrow>
        remove_chat db chat = (Inr (), delete_Chat db c)
        \<and> chat_rows (delete_Chat db c) =
            filter (\<lambda>r. db_chat_id r \<noteq> chat_id chat) (chat_rows db)
        \<and> Suc (length (chat_rows (delete_Chat db c))) = length (chat_rows db))"
proof (intro conjI allI impI)
  assume "filter (\<lambda>r. db_chat_id r = chat_id chat) (chat_rows db) = []"
  then show "remove_chat db chat = (Inl NoResultFound, db)"
    by (simp add: remove_chat_def one_row_def)
next
  assume "1 < length (filter (\<lambda>r. db_chat_id r = chat_id chat) (chat_rows db))"
  then obtain a b rest where
    "filter (\<lambda>r. db_chat_id r = chat_id chat) (chat_rows db) = a # b # rest"
    by (cases "filter (\<lambda>r. db_chat_id r = chat_id chat) (chat_rows db)" rule: remdups_adj.cases)
       simp_all
  then show "remove_chat db chat = (Inl MultipleResultsFound, db)"
    by (simp add: remove_chat_def one_row_def)
next
  fix c
  assume one: "filter (\<lambda>r. db_chat_id r = chat_id chat) (chat_rows db) = [c]"
  then show "remove_chat db chat = (Inr (), delete_Chat db c)"
    by (simp add: remove_chat_def one_row_def)
  from filter_single_remove1 [OF one]
  show rows: "chat_rows (delete_Chat db c) =
      filter (\<lambda>r. db_chat_id r \<noteq> chat_id chat) (chat_rows db)"
    by (simp add: delete_Chat_def)
  have "c \<in> set (filter (\<lambda>r. db_chat_id r = chat_id chat) (chat_rows db))"
    by (simp add: one)
  then have "c \<in> set (chat_rows db)" by simp
  then show "Suc (length (chat_rows (delete_Chat db c))) = length (chat_rows db)"
    by (simp add: delete_Chat_def length_remove1)
       (metis Suc_pred length_pos_if_in_set)
qed

theorem remove_chat_exactly_one_witness:
  "remove_chat \<lparr>user_rows = [], chat_rows = [\<lparr>db_chat_id = ''c1'', db_owner = ''alice''\<rparr>]\<rparr>
      \<lparr>chat_id = ''c2'', owner = ''alice''\<rparr>
     = (Inl NoResultFound,
        \<lparr>user_rows = [], chat_rows = [\<lparr>db_chat_id = ''c1'', db_owner = ''alice''\<rparr>]\<rparr>)
   \<and> remove_chat
        \<lparr>user_rows = [],
         chat_rows = [\<lparr>db_chat_id = ''c1'', db_owner = ''alice''\<rparr>,
                      \<lparr>db_chat_id = ''c1'', db_owner = ''bob''\<rparr>]\<rparr>
        \<lparr>chat_id = ''c1'', owner = ''alice''\<rparr>
     = (Inl MultipleResultsFound,
        \<lparr>user_rows = [],
         chat_rows = [\<lparr>db_chat_id = ''c1'', db_owner = ''alice''\<rparr>,
                      \<lparr>db_chat_id = ''c1'', db_owner = ''bob''\<rparr>]\<rparr>)
   \<and> remove_chat
        \<lparr>user_rows = [],
         chat_rows = [\<lparr>db_chat_id = ''c1'', db_owner = ''alice''\<rparr>,
                      \<lparr>db_chat_id = ''c2'', db_owner = ''bob''\<rparr>]\<rparr>
        \<lparr>chat_id = ''c1'', owner = ''alice''\<rparr>
     = (Inr (),
        \<lparr>user_rows = [], chat_rows = [\<lparr>db_chat_id = ''c2'', db_owner = ''bob''\<rparr>]\<rparr>)"
  using remove_chat_exactly_one [of "\<lparr>chat_id = ''c2'', owner = ''alice''\<rparr>"
      "\<lparr>user_rows = [], chat_rows = [\<lparr>db_chat_id = ''c1'', db_owner = ''alice''\<rparr>]\<rparr>"]
    remove_chat_exactly_one [of "\<lparr>chat_id = ''c1'', owner = ''alice''\<rparr>"
      "\<lparr>user_rows = [],
         chat_rows = [\<lparr>db_chat_id = ''c1'', db_owner = ''alice''\<rparr>,
                      \<lparr>db_chat_id = ''c1'', db_owner = ''bob''\<rparr>]\<rparr>"]
    remove_chat_exactly_one [of "\<lparr>chat_id = ''c1'', owner = ''alice''\<rparr>"
      "\<lparr>user_rows = [],
         chat_rows = [\<lparr>db_chat_id = ''c1'', db_owner = ''alice''\<rparr>,
                      \<lparr>db_chat_id = ''c2'', db_owner = ''bob''\<rparr>]\<rparr>"]
  by (simp add: delete_Chat_def)

section \<open>Mapping a view to persisted rows\<close>

lemma foldl_append_chats:
  "foldl (\<lambda>usr chat. usr\<lparr>db_chats := db_chats usr @ [mk (chat_id chat)]\<rparr>) user cs =
     user\<lparr>db_chats := db_chats user @ map (\<lambda>c. mk (chat_id c)) cs\<rparr>"
  by (induction cs arbitrary: user) simp_all

lemma user_view_to_db_rows_eq:
  "user_view_to_db_rows mk u uao =
     (\<lparr>db_id = id u, db_username = username u, db_email = email u,
       db_full_name = full_name u, db_theme_light = theme_light u,
       db_default_prompt = default_prompt u, db_is_active = is_active u,
       db_auth = (case uao of
                    None \<Rightarrow> []
                  | Some ua \<Rightarrow> [\<lparr>db_secret = secret ua, db_auth_type = auth_type ua,
                                 db_user_id = Some (id u)\<rparr>]),
       db_chats = map (\<lambda>c. mk (chat_id c)) (chats u)\<rparr>,
      (case uao of
         None \<Rightarrow> None
       | Some ua \<Rightarrow> Some \<lparr>db_secret = secret ua, db_auth_type = auth_type ua,
                           db_user_id = Some (id u)\<rparr>))"
  by (cases uao)
     (simp_all add: user_view_to_db_rows_def user_auth_view_to_db_def User_row_def
        foldl_append_chats)

text \<open>
  C7. Mapping a persisted user row to a view, with or without its auth records, and
  mapping that view back to a persisted row gives a row with the same username, email,
  full_name, theme_light, default_prompt and is_active.
\<close>

theorem user_roundtrip_scalars:
  "\<exists>v r' a. user_db_to_view (Some r) include_auth = Some v
      \<and> user_view_to_db mk fresh (Some v) uao = Inr (r', a)
      \<and> db_username r' = db_username r
      \<and> db_email r' = db_email r
      \<and> db_full_name r' = db_full_name r
      \<and> db_theme_light r' = db_theme_light r
      \<and> db_default_prompt r' = db_default_prompt r
      \<and> db_is_active r' = db_is_active r"
  by (simp add: user_db_to_view_def user_view_to_db_rows_eq)

theorem user_roundtrip_scalars_witness:
  "\<exists>v r' a. user_db_to_view
        (Some \<lparr>db_id = 7, db_username = ''alice'', db_email = ''a@example.org'',
           db_full_name = ''Alice'', db_theme_light = True, db_default_prompt = ''hi'',
           db_is_active = False,
           db_auth = [\<lparr>db_secret = ''h1'', db_auth_type = 1, db_user_id = Some 7\<rparr>],
           db_chats = [\<lparr>db_chat_id = ''c1'', db_owner = ''alice''\<rparr>]\<rparr>) True = Some v
      \<and> user_view_to_db (\<lambda>c. \<lparr>db_chat_id = c, db_owner = []\<rparr>) 9 (Some v) None = Inr (r', a)
      \<and> db_username r' = ''alice''
      \<and> db_email r' = ''a@example.org''
      \<and> db_full_name r' = ''Alice''
      \<and> db_theme_light r' = True
      \<and> db_default_prompt r' = ''hi''
      \<and> db_is_active r' = False"
  using user_roundtrip_scalars [of
        "\<lparr>db_id = 7, db_username = ''alice'', db_email = ''a@example.org'',
           db_full_name = ''Alice'', db_theme_light = True, db_default_prompt = ''hi'',
           db_is_active = False,
           db_auth = [\<lparr>db_secret = ''h1'', db_auth_type = 1, db_user_id = Some 7\<rparr>],
           db_chats = [\<lparr>db_chat_id = ''c1'', db_owner = ''alice''\<rparr>]\<rparr>" True
        "\<lambda>c. \<lparr>db_chat_id = c, db_owner = []\<rparr>" 9 None]
  by simp

text \<open>
  C9. In \<^verbatim>\<open>user_view_to_db\<close> the persisted chat rows are built, in order, from the
  chat_id of each chat of the view and nothing else. The owner is not copied: two views
  that differ only in the owners of their chats map to the same rows.
\<close>

theorem user_view_to_db_chat_rows:
  "(\<exists>r a. user_view_to_db mk fresh (Some u) uao = Inr (r, a)
      \<and> db_chats r = map (\<lambda>c. mk (chat_id c)) (chats u))
   \<and> (map chat_id cs = map chat_id (chats u) \<longrightarrow>
        user_view_to_db mk fresh (Some (u\<lparr>chats := cs\<rparr>)) uao =
        user_view_to_db mk fresh (Some u) uao)"
proof (intro conjI impI)
  show "\<exists>r a. user_view_to_db mk fresh (Some u) uao = Inr (r, a)
      \<and> db_chats r = map (\<lambda>c. mk (chat_id c)) (chats u)"
    by (simp add: user_view_to_db_rows_eq)
next
  assume same: "map chat_id cs = map chat_id (chats u)"
  have "map (\<lambda>c. mk (chat_id c)) cs = map mk (map chat_id cs)" by simp
  also have "\<dots> = map mk (map chat_id (chats u))" by (simp only: same)
  also have "\<dots> = map (\<lambda>c. mk (chat_id c)) (chats u)" by simp
  finally show "user_view_to_db mk fresh (Some (u\<lparr>chats := cs\<rparr>)) uao =
        user_view_to_db mk fresh (Some u) uao"
    by (cases uao) (simp_all add: user_view_to_db_rows_eq)
qed

theorem user_view_to_db_chat_rows_witness:
  "user_view_to_db (\<lambda>c. \<lparr>db_chat_id = c, db_owner = []\<rparr>) 9
      (Some \<lparr>username = ''alice'', id = 7, is_active = True, email = ''a@example.org'',
          full_name = ''Alice'', theme_light = True, default_prompt = ''hi'',
          auth = [], chats = [\<lparr>chat_id = ''c1'', owner = ''bob''\<rparr>]\<rparr>) None
   = user_view_to_db (\<lambda>c. \<lparr>db_chat_id = c, db_owner = []\<rparr>) 9
      (Some \<lparr>username = ''alice'', id = 7, is_active = True, email = ''a@example.org'',
          full_name = ''Alice'', theme_light = True, default_prompt = ''hi'',
          auth = [], chats = [\<lparr>chat_id = ''c1'', owner = ''alice''\<rparr>]\<rparr>) None"
  using user_view_to_db_chat_rows [of "\<lambda>c. \<lparr>db_chat_id = c, db_owner = []\<rparr>" 9
      "\<lparr>username = ''alice'', id = 7, is_active = True, email = ''a@example.org'',
          full_name = ''Alice'', theme_light = True, default_prompt = ''hi'',
          auth = [], chats = [\<lparr>chat_id = ''c1'', owner = ''alice''\<rparr>]\<rparr>" None
      "[\<lparr>chat_id = ''c1'', owner = ''bob''\<rparr>]"]
  by simp

section \<open>Listing users\<close>

text \<open>
  C10. Every entry \<^verbatim>\<open>get_users\<close> returns is a view with an empty auth collection,
  whatever auth records the stored rows hold; the page holds one view for each row past
  the offset, up to the limit.
\<close>

theorem get_users_no_auth:
  "(\<forall>x\<in>set (get_users db skip limit). \<exists>v. x = Some v \<and> auth v = [])
   \<and> length (get_users db skip limit) = min limit (length (user_rows db) - skip)"
  by (auto simp: get_users_def user_db_to_view_def)

theorem get_users_no_auth_witness:
  "get_users
     \<lparr>user_rows =
        [\<lparr>db_id = 7, db_username = ''alice'', db_email = ''a@example.org'',
          db_full_name = ''Alice'', db_theme_light = True, db_default_prompt = ''hi'',
          db_is_active = True,
          db_auth = [\<lparr>db_secret = ''h1'', db_auth_type = 1, db_user_id = Some 7\<rparr>],
          db_chats = []\<rparr>],
      chat_rows = []\<rparr> 0 100
   = [Some \<lparr>username = ''alice'', id = 7, is_active = True, email = ''a@example.org'',
          full_name = ''Alice'', theme_light = True, default_prompt = ''hi'',
          auth = [], chats = []\<rparr>]"
  using get_users_no_auth [of
     "\<lparr>user_rows =
        [\<lparr>db_id = 7, db_username = ''alice'', db_email = ''a@example.org'',
          db_full_name = ''Alice'', db_theme_light = True, db_default_prompt = ''hi'',
          db_is_active = True,
          db_auth = [\<lparr>db_secret = ''h1'', db_auth_type = 1, db_user_id = Some 7\<rparr>],
          db_chats = []\<rparr>],
      chat_rows = []\<rparr>" 0 100]
  by (simp add: get_users_def user_db_to_view_def)

section \<open>Username uniqueness\<close>

lemma replace_first_usernames:
  "db_username y = n \<Longrightarrow>
     map db_username (replace_first (\<lambda>r. db_username r = n) y xs) = map db_username xs"
  by (induction xs) simp_all

lemma update_user_usernames:
  "map db_username (user_rows (snd (update_user rebind db u))) = map db_username (user_rows db)"
proof (cases "first_row (filter (\<lambda>r. db_username r = username u) (user_rows db))")
  case None
  then show ?thesis by (simp add: update_user_def)
next
  case (Some r)
  show ?thesis
  proof (cases "commit_User rebind db r (update_user_loop r (User_dict u))")
    case (Inl e)
    with Some show ?thesis by (simp add: update_user_def)
  next
    case (Inr stored)
    from commit_User_scalars [OF Inr] have "db_username stored = username u"
      by (simp add: update_user_loop_scalars)
    from replace_first_usernames [OF this] Some Inr show ?thesis
      by (simp add: update_user_def)
  qed
qed

lemma create_user_unique:
  assumes "usernames_unique db"
  shows "usernames_unique (snd (create_user h mk fresh db ua))"
proof (cases "(\<exists>r\<in>set (user_rows db). db_username r = username ua) \<or> auth_type ua \<noteq> 1")
  case True
  then have "create_user h mk fresh db ua = (Inr None, db)"
    by (cases "get_user db (username ua) = None")
       (auto simp: create_user_def get_user_None_iff)
  with assms show ?thesis by simp
next
  case False
  then have fresh_name: "get_user db (username ua) = None" and pw: "auth_type ua = 1"
    by (simp_all add: get_user_None_iff)
  then have "map db_username (user_rows (snd (create_user h mk fresh db ua))) =
      map db_username (user_rows db) @ [username ua]"
    by (simp add: create_user_def Let_def user_view_to_db_rows_eq new_User_def add_User_def)
  moreover from False have "username ua \<notin> set (map db_username (user_rows db))" by auto
  ultimately show ?thesis using assms by (simp add: usernames_unique_def)
qed

lemma seed_db_unique:
  assumes "usernames_unique db"
  shows "usernames_unique (seed_db fresh db)"
proof (cases "first_row (filter (\<lambda>r. db_username r = ''system'') (user_rows db))")
  case (Some r)
  with assms show ?thesis by (simp add: seed_db_def)
next
  case None
  then have "\<forall>r\<in>set (user_rows db). db_username r \<noteq> ''system''"
    by (simp only: first_row_filter_None) 
  then have "''system'' \<notin> set (map db_username (user_rows db))" by auto
  with None assms show ?thesis
    by (simp add: seed_db_def add_User_def usernames_unique_def)
qed

lemma step_unique: "usernames_unique db \<Longrightarrow> usernames_unique (step h mk rebind db op)"
proof (cases op)
  case (Create_user fresh ua)
  assume "usernames_unique db"
  with Create_user show ?thesis by (simp add: create_user_unique)
next
  case (Update_user u)
  assume "usernames_unique db"
  with Update_user show ?thesis by (simp add: usernames_unique_def update_user_usernames)
next
  case (Create_chat chat)
  assume "usernames_unique db"
  with Create_chat show ?thesis
    by (simp add: usernames_unique_def create_chat_def add_Chat_def)
next
  case (Remove_chat chat)
  assume "usernames_unique db"
  with Remove_chat show ?thesis
    by (cases "one_row (filter (\<lambda>r. db_chat_id r = chat_id chat) (chat_rows db))")
       (simp_all add: usernames_unique_def remove_chat_def delete_Chat_def comp_def)
next
  case (Seed_db fresh)
  assume "usernames_unique db"
  with Seed_db show ?thesis by (simp add: seed_db_unique)
qed simp_all

text \<open>
  C8. Usernames are unique in the session after any sequence of service calls
  (lookups, listing, \<^verbatim>\<open>create_user\<close>, \<^verbatim>\<open>update_user\<close>, \<^verbatim>\<open>create_chat\<close>, \<^verbatim>\<open>remove_chat\<close>,
  \<^verbatim>\<open>seed_db\<close>) that starts from a session in which they are unique.
\<close>

theorem usernames_unique_invariant:
  "usernames_unique db \<Longrightarrow> usernames_unique (run h mk rebind db ops)"
  by (induction ops arbitrary: db) (simp_all add: step_unique)

theorem usernames_unique_invariant_witness:
  "usernames_unique \<lparr>user_rows = [], chat_rows = []\<rparr>
   \<and> usernames_unique
        (run (\<lambda>s. CHR ''#'' # s) (\<lambda>c. \<lparr>db_chat_id = c, db_owner = []\<rparr>)
           (\<lambda>r i. Inr (map (\<lambda>a. a\<lparr>db_user_id := Some i\<rparr>) (db_auth r), db_chats r))
           \<lparr>user_rows = [], chat_rows = []\<rparr>
           [Seed_db 1,
            Create_user 9 \<lparr>username = ''bob'', secret = ''pw'', auth_type = 1\<rparr>,
            Create_user 10 \<lparr>username = ''bob'', secret = ''pw2'', auth_type = 1\<rparr>,
            Update_user (new_User 11 ''bob''),
            Get_user ''bob'',
            Create_chat \<lparr>chat_id = ''c1'', owner = ''bob''\<rparr>,
            Remove_chat \<lparr>chat_id = ''c1'', owner = ''bob''\<rparr>,
            Seed_db 2])
   \<and> map db_username
        (user_rows
          (run (\<lambda>s. CHR ''#'' # s) (\<lambda>c. \<lparr>db_chat_id = c, db_owner = []\<rparr>)
           (\<lambda>r i. Inr (map (\<lambda>a. a\<lparr>db_user_id := Some i\<rparr>) (db_auth r), db_chats r))
             \<lparr>user_rows = [], chat_rows = []\<rparr>
             [Seed_db 1,
              Create_user 9 \<lparr>username = ''bob'', secret = ''pw'', auth_type = 1\<rparr>,
              Create_user 10 \<lparr>username = ''bob'', secret = ''pw2'', auth_type = 1\<rparr>,
              Update_user (new_User 11 ''bob''),
              Get_user ''bob'',
              Create_chat \<lparr>chat_id = ''c1'', owner = ''bob''\<rparr>,
              Remove_chat \<lparr>chat_id = ''c1'', owner = ''bob''\<rparr>,
              Seed_db 2]))
       = [''system'', ''bob'']"
proof -
  have start: "usernames_unique \<lparr>user_rows = [], chat_rows = []\<rparr>"
    by (simp add: usernames_unique_def)
  have names: "map db_username
        (user_rows
          (run (\<lambda>s. CHR ''#'' # s) (\<lambda>c. \<lparr>db_chat_id = c, db_owner = []\<rparr>)
           (\<lambda>r i. Inr (map (\<lambda>a. a\<lparr>db_user_id := Some i\<rparr>) (db_auth r), db_chats r))
             \<lparr>user_rows = [], chat_rows = []\<rparr>
             [Seed_db 1,
              Create_user 9 \<lparr>username = ''bob'', secret = ''pw'', auth_type = 1\<rparr>,
              Create_user 10 \<lparr>username = ''bob'', secret = ''pw2'', auth_type = 1\<rparr>,
              Update_user (new_User 11 ''bob''),
              Get_user ''bob'',
              Create_chat \<lparr>chat_id = ''c1'', owner = ''bob''\<rparr>,
              Remove_chat \<lparr>chat_id = ''c1'', owner = ''bob''\<rparr>,
              Seed_db 2]))
       = [''system'', ''bob'']"
    by (simp add: seed_db_def first_row_def add_User_def create_user_def get_user_def
        user_db_to_view_def user_view_to_db_rows_eq new_User_def update_user_def
        update_user_loop_User_dict commit_User_def create_chat_def add_Chat_def remove_chat_def one_row_def
        delete_Chat_def Let_def)
  show ?thesis
    by (rule conjI [OF start conjI [OF usernames_unique_invariant [OF start] names]])
qed

end
